theory Spec2Isabelle
  imports Complex_Main
begin

section \<open>JavaScript values used by the webhook handlers\<close>

text \<open>
  The two handlers (\<^verbatim>\<open>webhooks.products.update.jsx\<close> and the
  \<^verbatim>\<open>products/create\<close> handler) work on strings, on nullable strings and on
  JavaScript Numbers.

  A Number is modelled as an exact rational or one of the three special values.  The
  special values behave as in IEEE 754 (not-a-number is contagious, a division by zero
  gives an infinity or not-a-number).  On finite values the arithmetic is exact: the
  binary rounding of a double, overflow to an infinity and the sign of a zero are not
  represented.  Every zero divisor this program can meet is the result of
  \<^verbatim>\<open>1 - discount / 100\<close> with \<^verbatim>\<open>discount / 100 = 1\<close>, which is the positive
  zero, so a zero divisor is read as \<^verbatim>\<open>+0\<close>.
\<close>

datatype jsnum = Fin rat | PosInf | NegInf | NaN

fun js_neg :: "jsnum \<Rightarrow> jsnum" where
  "js_neg (Fin a) = Fin (- a)"
| "js_neg PosInf = NegInf"
| "js_neg NegInf = PosInf"
| "js_neg NaN = NaN"

fun js_add :: "jsnum \<Rightarrow> jsnum \<Rightarrow> jsnum" where
  "js_add NaN _ = NaN"
| "js_add _ NaN = NaN"
| "js_add (Fin a) (Fin b) = Fin (a + b)"
| "js_add PosInf NegInf = NaN"
| "js_add NegInf PosInf = NaN"
| "js_add PosInf _ = PosInf"
| "js_add NegInf _ = NegInf"
| "js_add (Fin a) PosInf = PosInf"
| "js_add (Fin a) NegInf = NegInf"

definition js_sub :: "jsnum \<Rightarrow> jsnum \<Rightarrow> jsnum" where
  "js_sub x y = js_add x (js_neg y)"

text \<open>The sign of a product or quotient with an infinite operand.\<close>

definition signed_inf :: "bool \<Rightarrow> jsnum" where
  "signed_inf negative = (if negative then NegInf else PosInf)"

fun js_mul :: "jsnum \<Rightarrow> jsnum \<Rightarrow> jsnum" where
  "js_mul NaN _ = NaN"
| "js_mul _ NaN = NaN"
| "js_mul (Fin a) (Fin b) = Fin (a * b)"
| "js_mul (Fin a) PosInf = (if a = 0 then NaN else signed_inf (a < 0))"
| "js_mul (Fin a) NegInf = (if a = 0 then NaN else signed_inf (0 < a))"
| "js_mul PosInf (Fin b) = (if b = 0 then NaN else signed_inf (b < 0))"
| "js_mul NegInf (Fin b) = (if b = 0 then NaN else signed_inf (0 < b))"
| "js_mul PosInf PosInf = PosInf"
| "js_mul PosInf NegInf = NegInf"
| "js_mul NegInf PosInf = NegInf"
| "js_mul NegInf NegInf = PosInf"

fun js_div :: "jsnum \<Rightarrow> jsnum \<Rightarrow> jsnum" where
  "js_div NaN _ = NaN"
| "js_div _ NaN = NaN"
| "js_div (Fin a) (Fin b) =
     (if b = 0 then (if a = 0 then NaN else signed_inf (a < 0)) else Fin (a / b))"
| "js_div (Fin a) PosInf = Fin 0"
| "js_div (Fin a) NegInf = Fin 0"
| "js_div PosInf (Fin b) = signed_inf (b < 0)"
| "js_div NegInf (Fin b) = signed_inf (0 \<le> b)"
| "js_div PosInf _ = NaN"
| "js_div NegInf _ = NaN"

text \<open>The comparison \<^verbatim>\<open>x > y\<close>: false as soon as an operand is not-a-number.\<close>

fun js_gt :: "jsnum \<Rightarrow> jsnum \<Rightarrow> bool" where
  "js_gt NaN _ = False"
| "js_gt _ NaN = False"
| "js_gt (Fin a) (Fin b) = (b < a)"
| "js_gt PosInf PosInf = False"
| "js_gt PosInf _ = True"
| "js_gt NegInf _ = False"
| "js_gt (Fin a) PosInf = False"
| "js_gt (Fin a) NegInf = True"



subsection \<open>Strings: \<^verbatim>\<open>toUpperCase\<close>, truthiness\<close>

text \<open>
  A string is a list of 8-bit characters.  \<^verbatim>\<open>toUpperCase\<close> maps the letters
  \<^verbatim>\<open>a\<close> to \<^verbatim>\<open>z\<close> to their capitals and leaves every other character alone.  No
  character outside ASCII has an upper-case form made of the letters O, A and K, so the
  comparison with \<^verbatim>\<open>"OOAK"\<close> is the same as in JavaScript.
\<close>

definition upper_char :: "char \<Rightarrow> char" where
  "upper_char c =
     (case map_of (zip ''abcdefghijklmnopqrstuvwxyz'' ''ABCDEFGHIJKLMNOPQRSTUVWXYZ'') c of
        Some u \<Rightarrow> u
      | None \<Rightarrow> c)"

definition toUpperCase :: "string \<Rightarrow> string" where
  "toUpperCase s = map upper_char s"

text \<open>A nullable string is truthy when it is neither \<^verbatim>\<open>null\<close> nor empty.\<close>

definition truthy :: "string option \<Rightarrow> bool" where
  "truthy v = (case v of None \<Rightarrow> False | Some s \<Rightarrow> s \<noteq> [])"

subsection \<open>\<^verbatim>\<open>parseFloat\<close>\<close>

text \<open>
  \<^verbatim>\<open>parseFloat\<close> skips leading white space and reads the longest prefix that is a
  decimal literal: an optional sign, then \<^verbatim>\<open>Infinity\<close> or digits with an optional
  fraction and an optional exponent.  With no such prefix the result is not-a-number.
  Only the ASCII white space characters are recognised here.
\<close>

definition digit_val :: "char \<Rightarrow> nat option" where
  "digit_val c =
     (let n = (of_char c :: nat) in if 48 \<le> n \<and> n \<le> 57 then Some (n - 48) else None)"

definition is_digit :: "char \<Rightarrow> bool" where
  "is_digit c = (digit_val c \<noteq> None)"

definition is_space :: "char \<Rightarrow> bool" where
  "is_space c = ((of_char c :: nat) \<in> {9, 10, 11, 12, 13, 32})"

definition digits_value :: "string \<Rightarrow> nat" where
  "digits_value ds = foldl (\<lambda>acc c. 10 * acc + (case digit_val c of Some d \<Rightarrow> d | None \<Rightarrow> 0)) 0 ds"

text \<open>The exponent part: \<^verbatim>\<open>e\<close> or \<^verbatim>\<open>E\<close>, an optional sign and at least one digit;
  anything else is not part of the literal and counts as exponent zero.\<close>

definition exponent_part :: "string \<Rightarrow> int" where
  "exponent_part s =
     (case s of
        [] \<Rightarrow> 0
      | c # r \<Rightarrow>
          if c = CHR ''e'' \<or> c = CHR ''E'' then
            (let negative = (case r of [] \<Rightarrow> False | d # _ \<Rightarrow> d = CHR ''-'');
                 signed = (case r of [] \<Rightarrow> False | d # _ \<Rightarrow> d = CHR ''-'' \<or> d = CHR ''+'');
                 ds = takeWhile is_digit (if signed then tl r else r)
             in if ds = [] then 0
                else if negative then - int (digits_value ds) else int (digits_value ds))
          else 0)"

definition scale10 :: "rat \<Rightarrow> int \<Rightarrow> rat" where
  "scale10 m e = (if 0 \<le> e then m * 10 ^ nat e else m / 10 ^ nat (- e))"

definition parse_unsigned :: "string \<Rightarrow> jsnum" where
  "parse_unsigned s =
     (if take 8 s = ''Infinity'' then PosInf
      else
        let ip = takeWhile is_digit s;
            r1 = dropWhile is_digit s;
            dotted = (case r1 of [] \<Rightarrow> False | c # _ \<Rightarrow> c = CHR ''.'');
            fp = (if dotted then takeWhile is_digit (tl r1) else []);
            r2 = (if dotted then dropWhile is_digit (tl r1) else r1)
        in if ip = [] \<and> fp = [] then NaN
           else Fin (scale10 (of_nat (digits_value (ip @ fp)))
                       (exponent_part r2 - int (length fp))))"

definition parseFloat :: "string \<Rightarrow> jsnum" where
  "parseFloat s =
     (let t = dropWhile is_space s
      in case t of
           [] \<Rightarrow> NaN
         | c # r \<Rightarrow>
             if c = CHR ''-'' then js_neg (parse_unsigned r)
             else if c = CHR ''+'' then parse_unsigned r
             else parse_unsigned t)"

subsection \<open>\<^verbatim>\<open>Number.prototype.toFixed\<close>\<close>

text \<open>
  \<^verbatim>\<open>x.toFixed(f)\<close>: the special values are printed by name; a negative value is printed
  as a minus sign and its magnitude; the magnitude is rounded to the nearest multiple of
  \<^verbatim>\<open>10^-f\<close>, the larger one on a tie, and printed with exactly \<^verbatim>\<open>f\<close> decimals.
  From \<^verbatim>\<open>10^21\<close> on, JavaScript prints the number in exponent notation instead
  (\<^verbatim>\<open>Number::toString\<close>); that printer is a parameter.
\<close>

function decimal_digits :: "nat \<Rightarrow> string" where
  "decimal_digits n =
     (if n < 10 then [''0123456789'' ! n]
      else decimal_digits (n div 10) @ [''0123456789'' ! (n mod 10)])"
  by pat_completeness auto
termination
  by (relation "measure (\<lambda>n. n)") auto

declare decimal_digits.simps [simp del]

definition toFixed :: "(rat \<Rightarrow> string) \<Rightarrow> jsnum \<Rightarrow> nat \<Rightarrow> string" where
  "toFixed numberToString x f =
     (case x of
        NaN \<Rightarrow> ''NaN''
      | PosInf \<Rightarrow> ''Infinity''
      | NegInf \<Rightarrow> ''-Infinity''
      | Fin r \<Rightarrow>
          let s = (if r < 0 then ''-'' else '''');
              a = \<bar>r\<bar>
          in if 10 ^ 21 \<le> a then s @ numberToString a
             else
               let n = nat \<lfloor>a * 10 ^ f + 1 / 2\<rfloor>;
                   m = decimal_digits n;
                   m' = (if f = 0 then m
                         else
                           let padded = (if length m \<le> f then replicate (f + 1 - length m) CHR ''0'' @ m else m);
                               k = length padded
                           in take (k - f) padded @ ''.'' @ drop (k - f) padded)
               in s @ m')"


section \<open>Data of the handlers\<close>

text \<open>What \<^verbatim>\<open>authenticate.webhook(request)\<close> returns: the shop, the topic and the
  payload, of which the handlers read \<^verbatim>\<open>payload.id\<close> only (kept as the text that
  the template literal prints).\<close>

record webhook =
  shop :: string
  topic :: string
  payload_id :: string

record session =
  accessToken :: string

text \<open>A thrown exception: a rejected promise of the session storage, of the database
  or of \<^verbatim>\<open>fetch\<close>, or a \<^verbatim>\<open>TypeError\<close>.\<close>

datatype fault = Thrown string

record response =
  status :: nat

text \<open>The tenant's row of \<^verbatim>\<open>prisma.metafieldDefaults\<close>; every column is a
  nullable string, as the settings route stores it.\<close>

record metafieldDefaults =
  etsyDiscount :: "string option"
  shipping :: "string option"
  vat :: "string option"
  normalMultiplier :: "string option"
  ooakMultiplier :: "string option"
  etsyMarkupProfit :: "string option"
  hourlyRate :: "string option"
  rarity :: "string option"

text \<open>An edge's node of the product's \<^verbatim>\<open>metafields\<close> connection.\<close>

record node =
  node_namespace :: string
  node_key :: string
  node_value :: string

text \<open>An element of the \<^verbatim>\<open>metafieldsSet\<close> mutation's input.\<close>

record metafield_input =
  mf_ownerId :: string
  mf_namespace :: string
  mf_key :: string
  mf_value :: string
  mf_type :: string

text \<open>The two GraphQL operations, with their variables.\<close>

datatype remote_call =
    GetProductMetafields string
  | MetafieldsSet "metafield_input list"

text \<open>The parts of a GraphQL reply that the handlers read:
  \<^verbatim>\<open>data?.product?.metafields?.edges\<close>, \<^verbatim>\<open>data?.metafieldsSet?.userErrors\<close>
  and \<^verbatim>\<open>errors\<close>; \<open>None\<close> where a link of the chain is missing.\<close>

record graphql_json =
  edges :: "node list option"
  userErrors :: "string list option"
  errors :: "string list option"

text \<open>What a run does to the outside: the requests it sends (URL, access token,
  operation) and the console lines that report how it ended.  Console lines that only
  print data are left out.\<close>

datatype event =
    Request string string remote_call
  | ConsoleLog string
  | ConsoleError string

text \<open>The collaborators of a handler.  Each call either throws or returns; a reply of
  \<^verbatim>\<open>fetch\<close> is the parsed JSON, \<open>None\<close> for the JSON value \<^verbatim>\<open>null\<close>.
  \<open>numberToString\<close> is the exponent notation of \<^verbatim>\<open>toFixed\<close> for magnitudes from
  \<^verbatim>\<open>10^21\<close> on.\<close>

record env =
  authenticate_webhook :: "fault + webhook"
  loadSession :: "string \<Rightarrow> fault + session option"
  findUnique :: "string \<Rightarrow> fault + metafieldDefaults option"
  fetch :: "string \<Rightarrow> string \<Rightarrow> remote_call \<Rightarrow> fault + graphql_json option"
  numberToString :: "rat \<Rightarrow> string"

definition ok200 :: response where
  "ok200 = \<lparr>status = 200\<rparr>"

definition productGid_of :: "webhook \<Rightarrow> string" where
  "productGid_of w = ''gid://shopify/Product/'' @ payload_id w"

definition graphql_url :: "string \<Rightarrow> string" where
  "graphql_url sh = ''https://'' @ sh @ ''/admin/api/2025-10/graphql.json''"

definition request_of :: "webhook \<Rightarrow> session \<Rightarrow> remote_call \<Rightarrow> event" where
  "request_of w se c = Request (graphql_url (shop w)) (accessToken se) c"

definition graphqlRequest ::
  "env \<Rightarrow> webhook \<Rightarrow> session \<Rightarrow> remote_call \<Rightarrow> fault + graphql_json option" where
  "graphqlRequest e w se c = fetch e (graphql_url (shop w)) (accessToken se) c"

section \<open>The \<^verbatim>\<open>products/update\<close> handler\<close>

subsection \<open>Reading the item's inputs (lines 57 to 66)\<close>

definition metafields_of :: "graphql_json \<Rightarrow> node list" where
  "metafields_of productData = (case edges productData of None \<Rightarrow> [] | Some es \<Rightarrow> es)"

definition field_of :: "string \<Rightarrow> node list \<Rightarrow> node option" where
  "field_of k metafields = find (\<lambda>edge. node_key edge = k) metafields"

definition materialCosts_of :: "node list \<Rightarrow> jsnum option" where
  "materialCosts_of metafields =
     (case field_of ''material_costs'' metafields of
        None \<Rightarrow> None
      | Some materialCostsField \<Rightarrow> Some (parseFloat (node_value materialCostsField)))"

definition hoursWorked_of :: "node list \<Rightarrow> jsnum option" where
  "hoursWorked_of metafields =
     (case field_of ''hours_worked'' metafields of
        None \<Rightarrow> None
      | Some hoursWorkedField \<Rightarrow> Some (parseFloat (node_value hoursWorkedField)))"

definition productRarity_of :: "node list \<Rightarrow> string" where
  "productRarity_of metafields =
     (case field_of ''rarity'' metafields of
        None \<Rightarrow> ''NORMAL''
      | Some rarityField \<Rightarrow>
          if node_value rarityField = [] then ''NORMAL'' else node_value rarityField)"

subsection \<open>Parsing the defaults (lines 86 to 96)\<close>

text \<open>The idiom \<^verbatim>\<open>v ? parseFloat(v) : d\<close>.\<close>

definition parse_or :: "string option \<Rightarrow> jsnum \<Rightarrow> jsnum" where
  "parse_or v d = (case v of None \<Rightarrow> d | Some s \<Rightarrow> if s = [] then d else parseFloat s)"

record rates =
  r_hourlyRate :: jsnum
  r_markup :: jsnum
  r_vat :: jsnum
  r_shipping :: jsnum
  r_discount :: jsnum
  r_normalMultiplier :: jsnum
  r_ooakMultiplier :: jsnum

definition parse_defaults :: "metafieldDefaults \<Rightarrow> rates" where
  "parse_defaults defaults =
     \<lparr> r_hourlyRate = parse_or (hourlyRate defaults) (Fin 0),
       r_markup = parse_or (etsyMarkupProfit defaults) (Fin 0),
       r_vat = parse_or (vat defaults) (Fin 0),
       r_shipping = parse_or (shipping defaults) (Fin 0),
       r_discount = parse_or (etsyDiscount defaults) (Fin 0),
       r_normalMultiplier = parse_or (normalMultiplier defaults) (Fin 1.2),
       r_ooakMultiplier = parse_or (ooakMultiplier defaults) (Fin 2) \<rparr>"

definition rarityMultiplier :: "string \<Rightarrow> rates \<Rightarrow> jsnum" where
  "rarityMultiplier productRarity r =
     (if toUpperCase productRarity = ''OOAK'' then r_ooakMultiplier r else r_normalMultiplier r)"

subsection \<open>The calculation (lines 101 to 125)\<close>

record derived =
  totalCost :: jsnum
  finalEtsyPrice :: jsnum
  etsyFees :: jsnum
  marketPrice :: jsnum

definition calculate :: "jsnum \<Rightarrow> jsnum \<Rightarrow> jsnum \<Rightarrow> rates \<Rightarrow> derived" where
  "calculate materialCosts hoursWorked multiplier r =
     (let labor = js_mul hoursWorked (r_hourlyRate r);
          base = js_mul (js_add materialCosts labor)
                   (js_add (Fin 1) (js_div (r_markup r) (Fin 100)));
          rarityAdjusted = js_mul base multiplier;
          subtotal = js_add rarityAdjusted (r_shipping r);
          priceWithVat = js_mul subtotal (js_add (Fin 1) (js_div (r_vat r) (Fin 100)));
          etsyFeesAmount = js_add (js_mul priceWithVat (Fin 0.095)) (Fin 0.20);
          price = js_add priceWithVat etsyFeesAmount;
          marketBase = js_mul (js_add materialCosts labor) (Fin 1.05)
      in \<lparr> totalCost = js_add materialCosts labor,
           finalEtsyPrice =
             (if js_gt (r_discount r) (Fin 0)
              then js_div price (js_sub (Fin 1) (js_div (r_discount r) (Fin 100)))
              else price),
           etsyFees = etsyFeesAmount,
           marketPrice = js_mul marketBase multiplier \<rparr>)"

subsection \<open>The write payload (lines 131 to 160)\<close>

definition calculated_field :: "string \<Rightarrow> string \<Rightarrow> string \<Rightarrow> metafield_input" where
  "calculated_field productGid k v =
     \<lparr> mf_ownerId = productGid, mf_namespace = ''custom'', mf_key = k, mf_value = v,
       mf_type = ''number_decimal'' \<rparr>"

definition metafieldsToSet :: "(rat \<Rightarrow> string) \<Rightarrow> string \<Rightarrow> derived \<Rightarrow> metafield_input list" where
  "metafieldsToSet big productGid d =
     [ calculated_field productGid ''total_cost'' (toFixed big (totalCost d) 2),
       calculated_field productGid ''etsy_price'' (toFixed big (finalEtsyPrice d) 2),
       calculated_field productGid ''etsy_fees'' (toFixed big (etsyFees d) 2),
       calculated_field productGid ''market_price'' (toFixed big (marketPrice d) 2) ]"


subsection \<open>The handler (lines 4 to 197)\<close>

text \<open>
  The body of the \<^verbatim>\<open>try\<close> block.  Its result is the exception it throws, the
  response of an early \<^verbatim>\<open>return\<close>, or \<open>None\<close> when it runs to its end; with it
  come the events of the run, in order.
\<close>

definition update_try :: "env \<Rightarrow> webhook \<Rightarrow> (fault + response option) \<times> event list" where
  "update_try e w =
     (let productGid = productGid_of w in
      case loadSession e (''offline_'' @ shop w) of
        Inl f \<Rightarrow> (Inl f, [])
      | Inr None \<Rightarrow> (Inr (Some ok200), [ConsoleError ''No session found for shop:''])
      | Inr (Some se) \<Rightarrow>
          let q = request_of w se (GetProductMetafields productGid) in
          case graphqlRequest e w se (GetProductMetafields productGid) of
            Inl f \<Rightarrow> (Inl f, [q])
          | Inr None \<Rightarrow> (Inl (Thrown ''TypeError''), [q])
          | Inr (Some productData) \<Rightarrow>
              let metafields = metafields_of productData in
              case (materialCosts_of metafields, hoursWorked_of metafields) of
                (Some materialCosts, Some hoursWorked) \<Rightarrow>
                  (case findUnique e (shop w) of
                     Inl f \<Rightarrow> (Inl f, [q])
                   | Inr None \<Rightarrow>
                       (Inr (Some ok200),
                        [q, ConsoleLog ''No default metafield values found for this shop''])
                   | Inr (Some defaults) \<Rightarrow>
                       let r = parse_defaults defaults;
                           multiplier = rarityMultiplier (productRarity_of metafields) r;
                           d = calculate materialCosts hoursWorked multiplier r;
                           m = MetafieldsSet (metafieldsToSet (numberToString e) productGid d)
                       in case graphqlRequest e w se m of
                            Inl f \<Rightarrow> (Inl f, [q, request_of w se m])
                          | Inr result \<Rightarrow>
                              (Inr None,
                               [q, request_of w se m,
                                (case result of
                                   None \<Rightarrow> ConsoleLog ''Successfully calculated and updated metafields''
                                 | Some j \<Rightarrow>
                                     (case userErrors j of
                                        None \<Rightarrow> ConsoleLog ''Successfully calculated and updated metafields''
                                      | Some ue \<Rightarrow>
                                          if 0 < length ue
                                          then ConsoleError ''Error setting calculated metafields:''
                                          else ConsoleLog ''Successfully calculated and updated metafields''))]))
              | _ \<Rightarrow>
                  (Inr (Some ok200),
                   [q, ConsoleLog ''Skipping calculation: material_costs or hours_worked is missing'']))"

text \<open>
  The whole handler.  \<^verbatim>\<open>authenticate.webhook\<close> stands before the \<^verbatim>\<open>try\<close>: its
  exception leaves the handler.  An exception of the \<^verbatim>\<open>try\<close> block is caught and
  logged, and the handler goes on to the final \<^verbatim>\<open>return\<close>.
\<close>

definition update_action :: "env \<Rightarrow> (fault + response) \<times> event list" where
  "update_action e =
     (case authenticate_webhook e of
        Inl f \<Rightarrow> (Inl f, [])
      | Inr w \<Rightarrow>
          (case update_try e w of
             (Inr (Some early), evs) \<Rightarrow> (Inr early, evs)
           | (Inr None, evs) \<Rightarrow> (Inr ok200, evs)
           | (Inl f, evs) \<Rightarrow>
               (Inr ok200, evs @ [ConsoleError ''Error in products/update webhook:''])))"

section \<open>The \<^verbatim>\<open>products/create\<close> handler\<close>

text \<open>An element of the array \<^verbatim>\<open>metafields\<close> built from the defaults.\<close>

record default_entry =
  de_namespace :: string
  de_key :: string
  de_value :: string
  de_type :: string

text \<open>One \<^verbatim>\<open>if (defaults.x) metafields.push({...})\<close>.\<close>

definition push_if :: "string option \<Rightarrow> string \<Rightarrow> string \<Rightarrow> default_entry list" where
  "push_if v k ty =
     (case v of
        None \<Rightarrow> []
      | Some s \<Rightarrow>
          if s = [] then []
          else [\<lparr> de_namespace = ''custom'', de_key = k, de_value = s, de_type = ty \<rparr>])"

definition default_metafields :: "metafieldDefaults \<Rightarrow> default_entry list" where
  "default_metafields defaults =
     push_if (etsyDiscount defaults) ''etsy_discount'' ''number_decimal'' @
     push_if (shipping defaults) ''shipping'' ''number_decimal'' @
     push_if (vat defaults) ''vat'' ''number_decimal'' @
     push_if (normalMultiplier defaults) ''normal_multiplier'' ''number_decimal'' @
     push_if (ooakMultiplier defaults) ''ooak_multiplier'' ''number_decimal'' @
     push_if (rarity defaults) ''rarity'' ''single_line_text_field'' @
     push_if (etsyMarkupProfit defaults) ''etsy_markup_profit'' ''number_decimal'' @
     push_if (hourlyRate defaults) ''hourly_rate'' ''number_decimal''"

definition metafieldsSetInput :: "string \<Rightarrow> default_entry list \<Rightarrow> metafield_input list" where
  "metafieldsSetInput productGid metafields =
     map (\<lambda>mf. \<lparr> mf_ownerId = productGid, mf_namespace = de_namespace mf, mf_key = de_key mf,
                 mf_value = de_value mf, mf_type = de_type mf \<rparr>) metafields"

definition create_try :: "env \<Rightarrow> webhook \<Rightarrow> (fault + response option) \<times> event list" where
  "create_try e w =
     (let productGid = productGid_of w in
      case loadSession e (''offline_'' @ shop w) of
        Inl f \<Rightarrow> (Inl f, [])
      | Inr None \<Rightarrow> (Inr (Some ok200), [ConsoleError ''No session found for shop:''])
      | Inr (Some se) \<Rightarrow>
          (case findUnique e (shop w) of
             Inl f \<Rightarrow> (Inl f, [])
           | Inr None \<Rightarrow>
               (Inr (Some ok200), [ConsoleLog ''No default metafield values found for this shop''])
           | Inr (Some defaults) \<Rightarrow>
               let metafields = default_metafields defaults in
               if length metafields = 0
               then (Inr (Some ok200), [ConsoleLog ''No metafield values to apply''])
               else
                 let m = MetafieldsSet (metafieldsSetInput productGid metafields) in
                 case graphqlRequest e w se m of
                   Inl f \<Rightarrow> (Inl f, [request_of w se m])
                 | Inr None \<Rightarrow> (Inl (Thrown ''TypeError''), [request_of w se m])
                 | Inr (Some result) \<Rightarrow>
                     (Inr None,
                      request_of w se m #
                      (case userErrors result of
                         None \<Rightarrow> ConsoleLog ''Successfully applied metafields to product''
                       | Some ue \<Rightarrow>
                           if 0 < length ue
                           then ConsoleError ''Error setting product metafields:''
                           else ConsoleLog ''Successfully applied metafields to product'') #
                      (case errors result of
                         None \<Rightarrow> []
                       | Some _ \<Rightarrow> [ConsoleError ''GraphQL Errors:'']))))"

definition create_action :: "env \<Rightarrow> (fault + response) \<times> event list" where
  "create_action e =
     (case authenticate_webhook e of
        Inl f \<Rightarrow> (Inl f, [])
      | Inr w \<Rightarrow>
          (case create_try e w of
             (Inr (Some early), evs) \<Rightarrow> (Inr early, evs)
           | (Inr None, evs) \<Rightarrow> (Inr ok200, evs)
           | (Inl f, evs) \<Rightarrow>
               (Inr ok200, evs @ [ConsoleError ''Error in products/create webhook:''])))"

text \<open>The write calls of a run: the payloads of its \<^verbatim>\<open>metafieldsSet\<close> requests.\<close>

fun writes :: "event list \<Rightarrow> metafield_input list list" where
  "writes [] = []"
| "writes (Request _ _ (MetafieldsSet p) # evs) = p # writes evs"
| "writes (_ # evs) = writes evs"


section \<open>The calculation in the words of the specification\<close>



section \<open>The remote catalog\<close>

text \<open>
  Modelled from the spec: the platform that answers the two GraphQL operations is not
  part of the repository.  Following sections 4.3 and 4.4 of the specification, an item
  holds its attributes of the namespace \<^verbatim>\<open>custom\<close> as a list of keys and values; a
  read returns the first twenty of them (the query's \<^verbatim>\<open>first: 20\<close>), and a write
  overwrites the value under each accepted key, or adds the key at the end.  Which
  elements the platform accepts is a parameter; a rejected element is reported in
  \<^verbatim>\<open>userErrors\<close> and changes nothing.
\<close>

type_synonym store = "(string \<times> string) list"

definition readAttributes :: "store \<Rightarrow> node list" where
  "readAttributes st =
     map (\<lambda>kv. \<lparr> node_namespace = ''custom'', node_key = fst kv, node_value = snd kv \<rparr>)
       (take 20 st)"

fun overwrite :: "string \<Rightarrow> string \<Rightarrow> store \<Rightarrow> store" where
  "overwrite k v [] = [(k, v)]"
| "overwrite k v (kv # st) = (if fst kv = k then (k, v) # st else kv # overwrite k v st)"

fun writeAttributes :: "(metafield_input \<Rightarrow> bool) \<Rightarrow> metafield_input list \<Rightarrow> store \<Rightarrow> store" where
  "writeAttributes accepted [] st = st"
| "writeAttributes accepted (m # ms) st =
     writeAttributes accepted ms
       (if accepted m then overwrite (mf_key m) (mf_value m) st else st)"

definition catalog_reply :: "(metafield_input \<Rightarrow> bool) \<Rightarrow> store \<Rightarrow> remote_call \<Rightarrow> graphql_json" where
  "catalog_reply accepted st c =
     (case c of
        GetProductMetafields _ \<Rightarrow>
          \<lparr> edges = Some (readAttributes st), userErrors = None, errors = None \<rparr>
      | MetafieldsSet ms \<Rightarrow>
          \<lparr> edges = None, userErrors = Some (map mf_key (filter (\<lambda>m. \<not> accepted m) ms)),
            errors = None \<rparr>)"

text \<open>A run's surroundings when every collaborator answers: the notification, the stored
  credential, the tenant's row (or none) and the item's attributes.\<close>

definition catalog_env ::
  "webhook \<Rightarrow> session option \<Rightarrow> metafieldDefaults option \<Rightarrow> (metafield_input \<Rightarrow> bool) \<Rightarrow>
   (rat \<Rightarrow> string) \<Rightarrow> store \<Rightarrow> env" where
  "catalog_env w se cfg accepted big st =
     \<lparr> authenticate_webhook = Inr w,
       loadSession = (\<lambda>_. Inr se),
       findUnique = (\<lambda>_. Inr cfg),
       fetch = (\<lambda>_ _ c. Inr (Some (catalog_reply accepted st c))),
       numberToString = big \<rparr>"

text \<open>Delivering an update notification: the handler runs against the item's current
  attributes, and the platform applies the writes the handler sent.\<close>

definition apply_writes :: "(metafield_input \<Rightarrow> bool) \<Rightarrow> metafield_input list list \<Rightarrow> store \<Rightarrow> store" where
  "apply_writes accepted ps st = foldl (\<lambda>s p. writeAttributes accepted p s) st ps"

definition deliver_update ::
  "webhook \<Rightarrow> session option \<Rightarrow> metafieldDefaults option \<Rightarrow> (metafield_input \<Rightarrow> bool) \<Rightarrow>
   (rat \<Rightarrow> string) \<Rightarrow> store \<Rightarrow> store" where
  "deliver_update w se cfg accepted big st =
     apply_writes accepted (writes (snd (update_action (catalog_env w se cfg accepted big st)))) st"

section \<open>Sample data\<close>

definition sample_webhook :: webhook where
  "sample_webhook = \<lparr> shop = ''atelier.myshopify.com'', topic = ''products/update'', payload_id = ''42'' \<rparr>"

definition sample_session :: session where
  "sample_session = \<lparr> accessToken = ''shpat_1'' \<rparr>"

text \<open>Vector A of the specification, as the strings the handler reads.\<close>

definition vectorA_defaults :: metafieldDefaults where
  "vectorA_defaults =
     \<lparr> etsyDiscount = Some ''10'', shipping = Some ''5'', vat = Some ''21'',
       normalMultiplier = Some ''1.2'', ooakMultiplier = None,
       etsyMarkupProfit = Some ''20'', hourlyRate = Some ''15'', rarity = Some ''NORMAL'' \<rparr>"

definition vectorA_store :: store where
  "vectorA_store = [(''material_costs'', ''10''), (''hours_worked'', ''2''), (''rarity'', ''NORMAL'')]"


definition no_defaults :: metafieldDefaults where
  "no_defaults =
     \<lparr> etsyDiscount = None, shipping = None, vat = None, normalMultiplier = None,
       ooakMultiplier = None, etsyMarkupProfit = None, hourlyRate = None, rarity = None \<rparr>"

definition fallback_rates :: rates where
  "fallback_rates =
     \<lparr> r_hourlyRate = Fin 0, r_markup = Fin 0, r_vat = Fin 0, r_shipping = Fin 0,
       r_discount = Fin 0, r_normalMultiplier = Fin 1.2, r_ooakMultiplier = Fin 2 \<rparr>"

definition accept_all :: "metafield_input \<Rightarrow> bool" where
  "accept_all m = True"

text \<open>A printer for the sample runs, whose magnitudes stay below \<^verbatim>\<open>10^21\<close>.\<close>

definition no_exponent :: "rat \<Rightarrow> string" where
  "no_exponent a = []"

definition sample_env :: "metafieldDefaults option \<Rightarrow> store \<Rightarrow> env" where
  "sample_env cfg st = catalog_env sample_webhook (Some sample_session) cfg accept_all no_exponent st"


text \<open>Runs in which a collaborator fails: \<^verbatim>\<open>fetch\<close> throws, or the platform rejects
  every element of a write.\<close>

definition faulty_env :: env where
  "faulty_env =
     (sample_env (Some vectorA_defaults) vectorA_store)
       \<lparr> fetch := (\<lambda>_ _ _. Inl (Thrown ''fetch failed'')) \<rparr>"

definition rejecting_env :: env where
  "rejecting_env =
     catalog_env sample_webhook (Some sample_session) (Some vectorA_defaults) (\<lambda>m. False)
       no_exponent vectorA_store"

definition no_credential_env :: env where
  "no_credential_env =
     catalog_env sample_webhook None (Some vectorA_defaults) accept_all no_exponent vectorA_store"

text \<open>A tenant's row in which none of the seven pricing columns is set.\<close>

definition unset :: "metafieldDefaults \<Rightarrow> bool" where
  "unset d = (\<not> truthy (etsyDiscount d) \<and> \<not> truthy (shipping d) \<and> \<not> truthy (vat d) \<and>
     \<not> truthy (normalMultiplier d) \<and> \<not> truthy (ooakMultiplier d) \<and>
     \<not> truthy (etsyMarkupProfit d) \<and> \<not> truthy (hourlyRate d))"

definition all_NaN :: derived where
  "all_NaN = \<lparr> totalCost = NaN, finalEtsyPrice = NaN, etsyFees = NaN, marketPrice = NaN \<rparr>"

definition malformed_store :: store where
  "malformed_store = [(''material_costs'', ''abc''), (''hours_worked'', ''2'')]"


text \<open>The value a write holds for an attribute key, if any.\<close>

definition attribute_of :: "metafield_input list \<Rightarrow> string \<Rightarrow> string option" where
  "attribute_of ms k = map_of (map (\<lambda>m. (mf_key m, mf_value m)) ms) k"

text \<open>The column of the tenant's row that seeds an attribute key of a new item, in the
  words of the specification: each configuration field has its corresponding item
  attribute.\<close>

definition config_field :: "metafieldDefaults \<Rightarrow> string \<Rightarrow> string option" where
  "config_field d k =
     (if k = ''etsy_discount'' then etsyDiscount d
      else if k = ''shipping'' then shipping d
      else if k = ''vat'' then vat d
      else if k = ''normal_multiplier'' then normalMultiplier d
      else if k = ''ooak_multiplier'' then ooakMultiplier d
      else if k = ''rarity'' then rarity d
      else if k = ''etsy_markup_profit'' then etsyMarkupProfit d
      else if k = ''hourly_rate'' then hourlyRate d
      else None)"

definition seeded :: "metafieldDefaults \<Rightarrow> string \<Rightarrow> string option" where
  "seeded d k = (if truthy (config_field d k) then config_field d k else None)"

text \<open>Vector A's item after its derived attributes have been written, and the same item
  holding an outdated total cost.\<close>

definition vectorA_written :: store where
  "vectorA_written =
     vectorA_store @
     [(''total_cost'', ''40.00''), (''etsy_price'', ''92.38''), (''etsy_fees'', ''7.40''),
      (''market_price'', ''50.40'')]"

definition stale_store :: store where
  "stale_store = (''total_cost'', ''1.00'') # vectorA_store"



section \<open>Evaluation\<close>

lemma decimal_digits_small: "n < 10 \<Longrightarrow> decimal_digits n = [''0123456789'' ! n]"
  by (simp add: decimal_digits.simps)

lemma decimal_digits_large:
  "\<not> n < 10 \<Longrightarrow> decimal_digits n = decimal_digits (n div 10) @ [''0123456789'' ! (n mod 10)]"
  by (subst decimal_digits.simps) simp

lemma floor_rat_divide_numeral: "\<lfloor>numeral a / numeral b :: rat\<rfloor> = numeral a div numeral b"
  by (metis floor_divide_of_int_eq of_int_numeral)

lemma floor_rat_one_divide_numeral: "\<lfloor>1 / numeral b :: rat\<rfloor> = 1 div numeral b"
  by (metis floor_divide_of_int_eq of_int_1 of_int_numeral)

lemmas toFixed_eval = toFixed_def Let_def decimal_digits_small decimal_digits_large
  floor_rat_divide_numeral floor_rat_one_divide_numeral

lemmas parseFloat_eval = parseFloat_def parse_unsigned_def is_space_def is_digit_def digit_val_def
  digits_value_def exponent_part_def scale10_def

lemmas sample_eval = sample_env_def catalog_env_def catalog_reply_def readAttributes_def
  sample_webhook_def sample_session_def accept_all_def no_exponent_def faulty_env_def
  rejecting_env_def no_credential_env_def

lemmas inputs_eval = metafields_of_def field_of_def materialCosts_of_def hoursWorked_of_def
  productRarity_of_def

lemmas rates_eval = parse_defaults_def parse_or_def rarityMultiplier_def toUpperCase_def
  upper_char_def

lemmas update_eval = update_action_def update_try_def graphqlRequest_def request_of_def
  graphql_url_def productGid_of_def inputs_eval rates_eval calculate_def js_sub_def
  metafieldsToSet_def calculated_field_def ok200_def

lemmas create_eval = create_action_def create_try_def graphqlRequest_def request_of_def
  graphql_url_def productGid_of_def default_metafields_def push_if_def metafieldsSetInput_def
  ok200_def

section \<open>How a run of a handler ends\<close>

lemma update_try_early: "update_try e w = (Inr (Some r), evs) \<Longrightarrow> r = ok200"
  by (auto simp: update_try_def Let_def split: sum.splits option.splits prod.splits)

lemma create_try_early: "create_try e w = (Inr (Some r), evs) \<Longrightarrow> r = ok200"
  by (auto simp: create_try_def Let_def split: sum.splits option.splits prod.splits if_splits)

lemma update_action_ack: "authenticate_webhook e = Inr w \<Longrightarrow> fst (update_action e) = Inr ok200"
  by (auto simp: update_action_def split: sum.splits option.splits prod.splits
      dest: update_try_early)

lemma create_action_ack: "authenticate_webhook e = Inr w \<Longrightarrow> fst (create_action e) = Inr ok200"
  by (auto simp: create_action_def split: sum.splits option.splits prod.splits
      dest: create_try_early)

lemma update_action_unauthenticated:
  "authenticate_webhook e = Inl f \<Longrightarrow> update_action e = (Inl f, [])"
  by (simp add: update_action_def)

lemma create_action_unauthenticated:
  "authenticate_webhook e = Inl f \<Longrightarrow> create_action e = (Inl f, [])"
  by (simp add: create_action_def)

lemma update_action_events:
  "authenticate_webhook e = Inr w \<Longrightarrow>
   snd (update_action e) =
     (case fst (update_try e w) of
        Inl f \<Rightarrow> snd (update_try e w) @ [ConsoleError ''Error in products/update webhook:'']
      | Inr _ \<Rightarrow> snd (update_try e w))"
  by (auto simp: update_action_def split: sum.splits option.splits prod.splits)

lemma create_action_events:
  "authenticate_webhook e = Inr w \<Longrightarrow>
   snd (create_action e) =
     (case fst (create_try e w) of
        Inl f \<Rightarrow> snd (create_try e w) @ [ConsoleError ''Error in products/create webhook:'']
      | Inr _ \<Rightarrow> snd (create_try e w))"
  by (auto simp: create_action_def split: sum.splits option.splits prod.splits)

lemma writes_append: "writes (xs @ ys) = writes xs @ writes ys"
  by (induction xs rule: writes.induct) auto

lemma update_action_writes:
  "authenticate_webhook e = Inr w \<Longrightarrow>
   writes (snd (update_action e)) = writes (snd (update_try e w))"
  by (simp add: update_action_events writes_append split: sum.splits)

lemma create_action_writes:
  "authenticate_webhook e = Inr w \<Longrightarrow>
   writes (snd (create_action e)) = writes (snd (create_try e w))"
  by (simp add: create_action_events writes_append split: sum.splits)

text \<open>The branches of the update handler, one lemma each.\<close>

lemma update_try_no_session:
  "loadSession e (''offline_'' @ shop w) = Inr None \<Longrightarrow>
   update_try e w = (Inr (Some ok200), [ConsoleError ''No session found for shop:''])"
  by (simp add: update_try_def)

lemma update_try_missing_input:
  assumes "loadSession e (''offline_'' @ shop w) = Inr (Some se)"
    and "graphqlRequest e w se (GetProductMetafields (productGid_of w)) = Inr (Some productData)"
    and "materialCosts_of (metafields_of productData) = None \<or>
         hoursWorked_of (metafields_of productData) = None"
  shows "update_try e w =
     (Inr (Some ok200),
      [request_of w se (GetProductMetafields (productGid_of w)),
       ConsoleLog ''Skipping calculation: material_costs or hours_worked is missing''])"
  using assms by (auto simp: update_try_def Let_def split: option.splits)

lemma update_try_no_defaults:
  assumes "loadSession e (''offline_'' @ shop w) = Inr (Some se)"
    and "graphqlRequest e w se (GetProductMetafields (productGid_of w)) = Inr (Some productData)"
    and "materialCosts_of (metafields_of productData) = Some mc"
    and "hoursWorked_of (metafields_of productData) = Some hw"
    and "findUnique e (shop w) = Inr None"
  shows "update_try e w =
     (Inr (Some ok200),
      [request_of w se (GetProductMetafields (productGid_of w)),
       ConsoleLog ''No default metafield values found for this shop''])"
  using assms by (simp add: update_try_def Let_def)

lemma update_try_computed:
  assumes "loadSession e (''offline_'' @ shop w) = Inr (Some se)"
    and "graphqlRequest e w se (GetProductMetafields (productGid_of w)) = Inr (Some productData)"
    and "materialCosts_of (metafields_of productData) = Some mc"
    and "hoursWorked_of (metafields_of productData) = Some hw"
    and "findUnique e (shop w) = Inr (Some defaults)"
  shows "writes (snd (update_try e w)) =
     [metafieldsToSet (numberToString e) (productGid_of w)
        (calculate mc hw
           (rarityMultiplier (productRarity_of (metafields_of productData))
              (parse_defaults defaults))
           (parse_defaults defaults))]"
  using assms
  by (auto simp: update_try_def Let_def request_of_def split: sum.splits option.splits)

text \<open>The sample runs, evaluated.\<close>

lemma sample_authenticated:
  "authenticate_webhook (sample_env cfg st) = Inr sample_webhook"
  "authenticate_webhook faulty_env = Inr sample_webhook"
  "authenticate_webhook rejecting_env = Inr sample_webhook"
  "authenticate_webhook no_credential_env = Inr sample_webhook"
  by (simp_all add: sample_env_def catalog_env_def faulty_env_def rejecting_env_def
      no_credential_env_def)

lemma faulty_run:
  "snd (update_action faulty_env) =
     [Request ''https://atelier.myshopify.com/admin/api/2025-10/graphql.json'' ''shpat_1''
        (GetProductMetafields ''gid://shopify/Product/42''),
      ConsoleError ''Error in products/update webhook:'']"
  by (simp add: sample_eval update_eval)

lemma rejecting_run:
  "snd (update_action rejecting_env) =
     [Request ''https://atelier.myshopify.com/admin/api/2025-10/graphql.json'' ''shpat_1''
        (GetProductMetafields ''gid://shopify/Product/42''),
      Request ''https://atelier.myshopify.com/admin/api/2025-10/graphql.json'' ''shpat_1''
        (MetafieldsSet
          [calculated_field ''gid://shopify/Product/42'' ''total_cost'' ''40.00'',
           calculated_field ''gid://shopify/Product/42'' ''etsy_price'' ''92.38'',
           calculated_field ''gid://shopify/Product/42'' ''etsy_fees'' ''7.40'',
           calculated_field ''gid://shopify/Product/42'' ''market_price'' ''50.40'']),
      ConsoleError ''Error setting calculated metafields:'']"
  by (simp add: sample_eval update_eval vectorA_defaults_def vectorA_store_def parseFloat_eval
      toFixed_eval)

lemma nothing_to_write_run:
  "snd (create_action (sample_env (Some no_defaults) vectorA_store)) =
     [ConsoleLog ''No metafield values to apply'']"
  by (simp add: sample_eval create_eval no_defaults_def)

section \<open>Properties\<close>

text \<open>
  C1.  A handler has one call outside its \<^verbatim>\<open>try\<close> block, the authentication of the
  notification.  Whenever a handler returns at all, its response has status 200; and
  once the notification is authenticated, both handlers do return, with status 200,
  whatever the session storage, the database and the remote platform answer or throw:
  on the normal path, on every early return, when the platform rejects the write and
  when a call inside the \<^verbatim>\<open>try\<close> block throws.
\<close>

theorem acknowledgement_contract:
  "(\<forall>r. fst (update_action e) = Inr r \<or> fst (create_action e) = Inr r \<longrightarrow> status r = 200) \<and>
   (\<forall>w. authenticate_webhook e = Inr w \<longrightarrow>
      fst (update_action e) = Inr \<lparr>status = 200\<rparr> \<and>
      fst (create_action e) = Inr \<lparr>status = 200\<rparr>)"
proof (cases "authenticate_webhook e")
  case (Inl f)
  then show ?thesis
    by (simp add: update_action_unauthenticated create_action_unauthenticated)
next
  case (Inr w)
  then have "fst (update_action e) = Inr ok200" and "fst (create_action e) = Inr ok200"
    by (rule update_action_ack, rule create_action_ack)
  then show ?thesis
    by (auto simp: ok200_def)
qed


theorem acknowledgement_contract_witness:
  "(fst (update_action faulty_env) = Inr \<lparr>status = 200\<rparr> \<and>
    fst (create_action faulty_env) = Inr \<lparr>status = 200\<rparr>) \<and>
   (fst (update_action rejecting_env) = Inr \<lparr>status = 200\<rparr> \<and>
    fst (create_action rejecting_env) = Inr \<lparr>status = 200\<rparr>) \<and>
   (fst (update_action no_credential_env) = Inr \<lparr>status = 200\<rparr> \<and>
    fst (create_action no_credential_env) = Inr \<lparr>status = 200\<rparr>) \<and>
   (fst (update_action (sample_env None vectorA_store)) = Inr \<lparr>status = 200\<rparr> \<and>
    fst (create_action (sample_env None vectorA_store)) = Inr \<lparr>status = 200\<rparr>) \<and>
   (fst (update_action (sample_env (Some vectorA_defaults) [])) = Inr \<lparr>status = 200\<rparr> \<and>
    fst (create_action (sample_env (Some no_defaults) [])) = Inr \<lparr>status = 200\<rparr>) \<and>
   (fst (update_action (sample_env (Some vectorA_defaults) vectorA_store)) = Inr \<lparr>status = 200\<rparr> \<and>
    fst (create_action (sample_env (Some vectorA_defaults) vectorA_store)) = Inr \<lparr>status = 200\<rparr>)"
proof -
  note ack = acknowledgement_contract [THEN conjunct2, rule_format]
  show ?thesis
    using ack [OF sample_authenticated(2)] ack [OF sample_authenticated(3)]
      ack [OF sample_authenticated(4)]
      ack [OF sample_authenticated(1) [of None vectorA_store]]
      ack [OF sample_authenticated(1) [of "Some vectorA_defaults" "[]"]]
      ack [OF sample_authenticated(1) [of "Some no_defaults" "[]"]]
      ack [OF sample_authenticated(1) [of "Some vectorA_defaults" vectorA_store]]
    by blast
qed

lemma sample_collaborators:
  "loadSession (sample_env cfg st) k = Inr (Some sample_session)"
  "findUnique (sample_env cfg st) k = Inr cfg"
  "graphqlRequest (sample_env cfg st) sample_webhook sample_session c =
     Inr (Some (catalog_reply accept_all st c))"
  "numberToString (sample_env cfg st) = no_exponent"
  by (simp_all add: sample_env_def catalog_env_def graphqlRequest_def)

lemma catalog_metafields:
  "metafields_of (catalog_reply accepted st (GetProductMetafields g)) = readAttributes st"
  by (simp add: metafields_of_def catalog_reply_def)

text \<open>
  C5.  On an update notification, when the item's attributes as read from the platform
  lack \<^verbatim>\<open>material_costs\<close> or \<^verbatim>\<open>hours_worked\<close>, the run consists of the read
  request and one console line: no \<^verbatim>\<open>metafieldsSet\<close> request is sent, and the
  handler answers with status 200.
\<close>

theorem missing_input_short_circuit:
  assumes "authenticate_webhook e = Inr w"
    and "loadSession e (''offline_'' @ shop w) = Inr (Some se)"
    and "graphqlRequest e w se (GetProductMetafields (productGid_of w)) = Inr (Some productData)"
    and "field_of ''material_costs'' (metafields_of productData) = None \<or>
         field_of ''hours_worked'' (metafields_of productData) = None"
  shows "writes (snd (update_action e)) = [] \<and>
         snd (update_action e) =
           [request_of w se (GetProductMetafields (productGid_of w)),
            ConsoleLog ''Skipping calculation: material_costs or hours_worked is missing''] \<and>
         fst (update_action e) = Inr \<lparr>status = 200\<rparr>"
proof -
  from assms(4) have "materialCosts_of (metafields_of productData) = None \<or>
      hoursWorked_of (metafields_of productData) = None"
    by (auto simp: materialCosts_of_def hoursWorked_of_def)
  from update_try_missing_input [OF assms(2) assms(3) this]
  have run: "update_try e w =
     (Inr (Some ok200),
      [request_of w se (GetProductMetafields (productGid_of w)),
       ConsoleLog ''Skipping calculation: material_costs or hours_worked is missing''])" .
  have "snd (update_action e) = snd (update_try e w)"
    using assms(1) run by (simp add: update_action_events)
  moreover have "fst (update_action e) = Inr \<lparr>status = 200\<rparr>"
    using update_action_ack [OF assms(1)] by (simp add: ok200_def)
  ultimately show ?thesis
    using run by (simp add: request_of_def)
qed

theorem missing_input_short_circuit_witness:
  "field_of ''hours_worked'' (readAttributes [(''material_costs'', ''10'')]) = None \<and>
   writes (snd (update_action (sample_env (Some vectorA_defaults) [(''material_costs'', ''10'')]))) = [] \<and>
   fst (update_action (sample_env (Some vectorA_defaults) [(''material_costs'', ''10'')])) =
     Inr \<lparr>status = 200\<rparr>"
proof -
  let ?st = "[(''material_costs'', ''10'')]"
  let ?e = "sample_env (Some vectorA_defaults) ?st"
  have absent: "field_of ''hours_worked'' (readAttributes ?st) = None"
    by (simp add: field_of_def readAttributes_def)
  have "field_of ''material_costs''
          (metafields_of (catalog_reply accept_all ?st
             (GetProductMetafields (productGid_of sample_webhook)))) = None \<or>
        field_of ''hours_worked''
          (metafields_of (catalog_reply accept_all ?st
             (GetProductMetafields (productGid_of sample_webhook)))) = None"
    using absent by (simp add: catalog_metafields)
  from missing_input_short_circuit [of ?e, OF sample_authenticated(1) sample_collaborators(1)
      sample_collaborators(3) this]
  show ?thesis
    using absent by blast
qed

lemma no_defaults_no_write_update:
  "findUnique e (shop w) = Inr None \<Longrightarrow> writes (snd (update_try e w)) = []"
  by (auto simp: update_try_def Let_def request_of_def split: sum.splits option.splits)

lemma no_defaults_no_write_create:
  "findUnique e (shop w) = Inr None \<Longrightarrow> writes (snd (create_try e w)) = []"
  by (auto simp: create_try_def Let_def request_of_def split: sum.splits option.splits)

lemma parse_or_fallback: "\<not> truthy v \<Longrightarrow> parse_or v d = d"
  by (auto simp: truthy_def parse_or_def split: option.splits)

lemma parse_or_present: "truthy v \<Longrightarrow> parse_or v d = parseFloat (the v)"
  by (auto simp: truthy_def parse_or_def split: option.splits)

lemma parse_defaults_unset: "unset d \<Longrightarrow> parse_defaults d = fallback_rates"
  by (simp add: unset_def parse_defaults_def fallback_rates_def parse_or_fallback)

lemma vectorA_inputs:
  "materialCosts_of (readAttributes vectorA_store) = Some (Fin 10)"
  "hoursWorked_of (readAttributes vectorA_store) = Some (Fin 2)"
  "productRarity_of (readAttributes vectorA_store) = ''NORMAL''"
  by (simp_all add: inputs_eval readAttributes_def vectorA_store_def parseFloat_eval)

text \<open>
  C3, as the code has it.  The update handler returns early when the tenant has no row
  (lines 81 to 84), exactly like the create handler: no \<^verbatim>\<open>metafieldsSet\<close> request is
  sent and the answer has status 200.  The fallback values are used when the row exists
  and none of its pricing columns is set: then the four attributes are computed from the
  fallback rates and written.
\<close>

theorem absent_configuration_short_circuits:
  assumes "authenticate_webhook e = Inr w"
  shows "(findUnique e (shop w) = Inr None \<longrightarrow>
            writes (snd (update_action e)) = [] \<and> writes (snd (create_action e)) = [] \<and>
            fst (update_action e) = Inr \<lparr>status = 200\<rparr>) \<and>
         (\<forall>se productData mc hw d.
            loadSession e (''offline_'' @ shop w) = Inr (Some se) \<and>
            graphqlRequest e w se (GetProductMetafields (productGid_of w)) = Inr (Some productData) \<and>
            materialCosts_of (metafields_of productData) = Some mc \<and>
            hoursWorked_of (metafields_of productData) = Some hw \<and>
            findUnique e (shop w) = Inr (Some d) \<and> unset d \<longrightarrow>
            writes (snd (update_action e)) =
              [metafieldsToSet (numberToString e) (productGid_of w)
                 (calculate mc hw
                    (rarityMultiplier (productRarity_of (metafields_of productData)) fallback_rates)
                    fallback_rates)])"
proof (intro conjI impI allI)
  assume "findUnique e (shop w) = Inr None"
  then show "writes (snd (update_action e)) = []" "writes (snd (create_action e)) = []"
    using assms
    by (simp_all add: update_action_writes create_action_writes no_defaults_no_write_update
        no_defaults_no_write_create)
  show "fst (update_action e) = Inr \<lparr>status = 200\<rparr>"
    using update_action_ack [OF assms] by (simp add: ok200_def)
next
  fix se productData mc hw d
  assume h: "loadSession e (''offline_'' @ shop w) = Inr (Some se) \<and>
            graphqlRequest e w se (GetProductMetafields (productGid_of w)) = Inr (Some productData) \<and>
            materialCosts_of (metafields_of productData) = Some mc \<and>
            hoursWorked_of (metafields_of productData) = Some hw \<and>
            findUnique e (shop w) = Inr (Some d) \<and> unset d"
  then have h1: "loadSession e (''offline_'' @ shop w) = Inr (Some se)"
    and h2: "graphqlRequest e w se (GetProductMetafields (productGid_of w)) = Inr (Some productData)"
    and h3: "materialCosts_of (metafields_of productData) = Some mc"
    and h4: "hoursWorked_of (metafields_of productData) = Some hw"
    and h5: "findUnique e (shop w) = Inr (Some d)"
    by simp_all
  note update_try_computed [OF h1 h2 h3 h4 h5]
  then show "writes (snd (update_action e)) =
              [metafieldsToSet (numberToString e) (productGid_of w)
                 (calculate mc hw
                    (rarityMultiplier (productRarity_of (metafields_of productData)) fallback_rates)
                    fallback_rates)]"
    using assms h by (simp add: update_action_writes parse_defaults_unset)
qed

text \<open>C3 in the specification's wording fails on Vector A's item when the tenant has no row: both
  inputs are present, and the run ends after the read request.\<close>

theorem absent_configuration_counterexample:
  "findUnique (sample_env None vectorA_store) (shop sample_webhook) = Inr None \<and>
   materialCosts_of (readAttributes vectorA_store) = Some (Fin 10) \<and>
   hoursWorked_of (readAttributes vectorA_store) = Some (Fin 2) \<and>
   snd (update_action (sample_env None vectorA_store)) =
     [Request ''https://atelier.myshopify.com/admin/api/2025-10/graphql.json'' ''shpat_1''
        (GetProductMetafields ''gid://shopify/Product/42''),
      ConsoleLog ''No default metafield values found for this shop''] \<and>
   writes (snd (update_action (sample_env None vectorA_store))) = []"
  by (simp add: sample_eval update_eval vectorA_store_def parseFloat_eval)

theorem absent_configuration_short_circuits_witness:
  "writes (snd (update_action (sample_env None vectorA_store))) = [] \<and>
   writes (snd (create_action (sample_env None vectorA_store))) = [] \<and>
   fst (update_action (sample_env None vectorA_store)) = Inr \<lparr>status = 200\<rparr> \<and>
   unset no_defaults \<and>
   writes (snd (update_action (sample_env (Some no_defaults) vectorA_store))) =
     [metafieldsToSet no_exponent (productGid_of sample_webhook)
        (calculate (Fin 10) (Fin 2) (Fin 1.2) fallback_rates)]"
proof -
  have u: "unset no_defaults"
    by (simp add: unset_def no_defaults_def truthy_def)
  have m: "rarityMultiplier ''NORMAL'' fallback_rates = Fin 1.2"
    by (simp add: rates_eval fallback_rates_def)
  note a = absent_configuration_short_circuits [OF sample_authenticated(1), THEN conjunct1,
      rule_format, of None vectorA_store]
  note b = absent_configuration_short_circuits [OF sample_authenticated(1), THEN conjunct2,
      rule_format, of "Some no_defaults" vectorA_store sample_session
        "catalog_reply accept_all vectorA_store (GetProductMetafields (productGid_of sample_webhook))"
        "Fin 10" "Fin 2" no_defaults]
  show ?thesis
    using a b u m by (simp add: sample_collaborators catalog_metafields vectorA_inputs)
qed






lemma js_add_NaN: "js_add x NaN = NaN" "js_add NaN x = NaN"
  by (cases x; simp)+

lemma js_mul_NaN: "js_mul x NaN = NaN" "js_mul NaN x = NaN"
  by (cases x; simp)+

lemma js_div_NaN: "js_div x NaN = NaN" "js_div NaN x = NaN"
  by (cases x; simp)+

lemma calculate_NaN:
  "materialCosts = NaN \<or> hoursWorked = NaN \<Longrightarrow> calculate materialCosts hoursWorked m r = all_NaN"
  by (auto simp: calculate_def Let_def all_NaN_def js_add_NaN js_mul_NaN js_div_NaN)

lemma payload_keys:
  "map mf_key (metafieldsToSet big g d) = [''total_cost'', ''etsy_price'', ''etsy_fees'', ''market_price'']"
  by (simp add: metafieldsToSet_def calculated_field_def)

lemma payload_NaN:
  "map mf_value (metafieldsToSet big g all_NaN) = [''NaN'', ''NaN'', ''NaN'', ''NaN'']"
  by (simp add: metafieldsToSet_def calculated_field_def all_NaN_def toFixed_def)

text \<open>
  C4, as the code has it.  The calculation has no failing branch and no check for
  not-a-number: whenever the handler reaches it, it produces the four values and the
  handler sends them in one write, then answers with status 200.  A material cost or an
  hours value that parses to not-a-number is not rejected; it makes all four values
  not-a-number, and they are written as the text \<^verbatim>\<open>NaN\<close>.
\<close>

theorem calculation_never_fails:
  assumes "authenticate_webhook e = Inr w"
    and "loadSession e (''offline_'' @ shop w) = Inr (Some se)"
    and "graphqlRequest e w se (GetProductMetafields (productGid_of w)) = Inr (Some productData)"
    and "materialCosts_of (metafields_of productData) = Some materialCosts"
    and "hoursWorked_of (metafields_of productData) = Some hoursWorked"
    and "findUnique e (shop w) = Inr (Some defaults)"
  shows "(\<exists>d. writes (snd (update_action e)) =
                [metafieldsToSet (numberToString e) (productGid_of w) d] \<and>
              d = calculate materialCosts hoursWorked
                    (rarityMultiplier (productRarity_of (metafields_of productData))
                       (parse_defaults defaults))
                    (parse_defaults defaults) \<and>
              map mf_key (metafieldsToSet (numberToString e) (productGid_of w) d) =
                [''total_cost'', ''etsy_price'', ''etsy_fees'', ''market_price''] \<and>
              (materialCosts = NaN \<or> hoursWorked = NaN \<longrightarrow>
                 d = all_NaN \<and>
                 map mf_value (metafieldsToSet (numberToString e) (productGid_of w) d) =
                   [''NaN'', ''NaN'', ''NaN'', ''NaN''])) \<and>
         fst (update_action e) = Inr \<lparr>status = 200\<rparr>"
proof -
  have "writes (snd (update_action e)) = writes (snd (update_try e w))"
    using assms(1) by (rule update_action_writes)
  also note update_try_computed [OF assms(2-6)]
  finally have "writes (snd (update_action e)) =
     [metafieldsToSet (numberToString e) (productGid_of w)
        (calculate materialCosts hoursWorked
           (rarityMultiplier (productRarity_of (metafields_of productData))
              (parse_defaults defaults))
           (parse_defaults defaults))]" .
  moreover have "fst (update_action e) = Inr \<lparr>status = 200\<rparr>"
    using update_action_ack [OF assms(1)] by (simp add: ok200_def)
  ultimately show ?thesis
    by (auto simp: payload_keys calculate_NaN payload_NaN)
qed

lemma malformed_inputs:
  "materialCosts_of (readAttributes malformed_store) = Some NaN"
  "hoursWorked_of (readAttributes malformed_store) = Some (Fin 2)"
  by (simp_all add: inputs_eval readAttributes_def malformed_store_def parseFloat_eval)

text \<open>C4 in the specification's wording fails on a material cost of \<^verbatim>\<open>"abc"\<close>: the input parses
  to not-a-number, and the calculation still delivers its four values, which are sent.
  Nor are not-a-number results tied to malformed input: an infinite material cost with a
  markup of -100 percent parses well and gives not-a-number for two of the values.\<close>

theorem malformed_input_counterexample:
  "parseFloat ''abc'' = NaN \<and>
   snd (update_action (sample_env (Some vectorA_defaults)
          malformed_store)) =
     [Request ''https://atelier.myshopify.com/admin/api/2025-10/graphql.json'' ''shpat_1''
        (GetProductMetafields ''gid://shopify/Product/42''),
      Request ''https://atelier.myshopify.com/admin/api/2025-10/graphql.json'' ''shpat_1''
        (MetafieldsSet
          [calculated_field ''gid://shopify/Product/42'' ''total_cost'' ''NaN'',
           calculated_field ''gid://shopify/Product/42'' ''etsy_price'' ''NaN'',
           calculated_field ''gid://shopify/Product/42'' ''etsy_fees'' ''NaN'',
           calculated_field ''gid://shopify/Product/42'' ''market_price'' ''NaN'']),
      ConsoleLog ''Successfully calculated and updated metafields''] \<and>
   fst (update_action (sample_env (Some vectorA_defaults)
          malformed_store)) = Inr \<lparr>status = 200\<rparr> \<and>
   parseFloat ''Infinity'' = PosInf \<and> parseFloat ''-100'' = Fin (- 100) \<and>
   calculate PosInf (Fin 2) (Fin 1.2) (fallback_rates \<lparr> r_markup := Fin (- 100) \<rparr>) =
     \<lparr> totalCost = PosInf, finalEtsyPrice = NaN, etsyFees = NaN, marketPrice = PosInf \<rparr>"
proof -
  have "calculate PosInf (Fin 2) (Fin 1.2) (fallback_rates \<lparr> r_markup := Fin (- 100) \<rparr>) =
     \<lparr> totalCost = PosInf, finalEtsyPrice = NaN, etsyFees = NaN, marketPrice = PosInf \<rparr>"
    by (simp add: calculate_def Let_def fallback_rates_def signed_inf_def)
  moreover have "parseFloat ''Infinity'' = PosInf" "parseFloat ''-100'' = Fin (- 100)"
    "parseFloat ''abc'' = NaN"
    by (simp_all add: parseFloat_eval)
  moreover have "update_action (sample_env (Some vectorA_defaults) malformed_store) =
     (Inr \<lparr>status = 200\<rparr>,
      [Request ''https://atelier.myshopify.com/admin/api/2025-10/graphql.json'' ''shpat_1''
        (GetProductMetafields ''gid://shopify/Product/42''),
      Request ''https://atelier.myshopify.com/admin/api/2025-10/graphql.json'' ''shpat_1''
        (MetafieldsSet
          [calculated_field ''gid://shopify/Product/42'' ''total_cost'' ''NaN'',
           calculated_field ''gid://shopify/Product/42'' ''etsy_price'' ''NaN'',
           calculated_field ''gid://shopify/Product/42'' ''etsy_fees'' ''NaN'',
           calculated_field ''gid://shopify/Product/42'' ''market_price'' ''NaN'']),
      ConsoleLog ''Successfully calculated and updated metafields''])"
    by (simp add: sample_eval update_eval vectorA_defaults_def malformed_store_def
        parseFloat_eval toFixed_def Let_def)
  ultimately show ?thesis
    by simp
qed

theorem calculation_never_fails_witness:
  "materialCosts_of (readAttributes malformed_store) = Some NaN \<and>
   writes (snd (update_action (sample_env (Some vectorA_defaults)
          malformed_store))) =
     [metafieldsToSet no_exponent (productGid_of sample_webhook) all_NaN] \<and>
   map mf_value (metafieldsToSet no_exponent (productGid_of sample_webhook) all_NaN) =
     [''NaN'', ''NaN'', ''NaN'', ''NaN'']"
proof -
  let ?e = "sample_env (Some vectorA_defaults) malformed_store"
  let ?p = "catalog_reply accept_all malformed_store (GetProductMetafields (productGid_of sample_webhook))"
  have h4: "materialCosts_of (metafields_of ?p) = Some NaN"
    and h5: "hoursWorked_of (metafields_of ?p) = Some (Fin 2)"
    by (simp_all add: catalog_metafields malformed_inputs)
  from calculation_never_fails [of ?e, OF sample_authenticated(1) sample_collaborators(1)
      sample_collaborators(3) h4 h5 sample_collaborators(2)]
  show ?thesis
    by (auto simp: sample_collaborators malformed_inputs)
qed

text \<open>
  C6.  Each of the seven pricing columns of the tenant's row is parsed on its own; a
  column that is not set (\<^verbatim>\<open>null\<close>, or the empty string) gives its fallback: 0 for
  the discount, the shipping cost, the tax, the markup and the hourly rate, 1.2 for the
  normal multiplier and 2.0 for the one-of-a-kind multiplier.  These parsed rates are
  the ones the update handler calculates with.
\<close>

theorem fallback_policy:
  "(\<not> truthy (etsyDiscount d) \<longrightarrow> r_discount (parse_defaults d) = Fin 0) \<and>
   (\<not> truthy (shipping d) \<longrightarrow> r_shipping (parse_defaults d) = Fin 0) \<and>
   (\<not> truthy (vat d) \<longrightarrow> r_vat (parse_defaults d) = Fin 0) \<and>
   (\<not> truthy (etsyMarkupProfit d) \<longrightarrow> r_markup (parse_defaults d) = Fin 0) \<and>
   (\<not> truthy (hourlyRate d) \<longrightarrow> r_hourlyRate (parse_defaults d) = Fin 0) \<and>
   (\<not> truthy (normalMultiplier d) \<longrightarrow> r_normalMultiplier (parse_defaults d) = Fin 1.2) \<and>
   (\<not> truthy (ooakMultiplier d) \<longrightarrow> r_ooakMultiplier (parse_defaults d) = Fin 2.0) \<and>
   (authenticate_webhook e = Inr w \<and>
    loadSession e (''offline_'' @ shop w) = Inr (Some se) \<and>
    graphqlRequest e w se (GetProductMetafields (productGid_of w)) = Inr (Some productData) \<and>
    materialCosts_of (metafields_of productData) = Some mc \<and>
    hoursWorked_of (metafields_of productData) = Some hw \<and>
    findUnique e (shop w) = Inr (Some d) \<longrightarrow>
    writes (snd (update_action e)) =
      [metafieldsToSet (numberToString e) (productGid_of w)
         (calculate mc hw
            (rarityMultiplier (productRarity_of (metafields_of productData)) (parse_defaults d))
            (parse_defaults d))])"
proof -
  have "writes (snd (update_action e)) =
      [metafieldsToSet (numberToString e) (productGid_of w)
         (calculate mc hw
            (rarityMultiplier (productRarity_of (metafields_of productData)) (parse_defaults d))
            (parse_defaults d))]"
    if "authenticate_webhook e = Inr w"
      and "loadSession e (''offline_'' @ shop w) = Inr (Some se)"
      and "graphqlRequest e w se (GetProductMetafields (productGid_of w)) = Inr (Some productData)"
      and "materialCosts_of (metafields_of productData) = Some mc"
      and "hoursWorked_of (metafields_of productData) = Some hw"
      and "findUnique e (shop w) = Inr (Some d)"
    using update_try_computed [OF that(2-6)] that(1) by (simp add: update_action_writes)
  then show ?thesis
    by (simp add: parse_defaults_def parse_or_fallback)
qed

theorem fallback_policy_witness:
  "\<not> truthy (ooakMultiplier vectorA_defaults) \<and>
   r_ooakMultiplier (parse_defaults vectorA_defaults) = Fin 2 \<and>
   parse_defaults no_defaults = fallback_rates \<and>
   parse_defaults (no_defaults \<lparr> shipping := Some [], normalMultiplier := Some ''1.5'' \<rparr>) =
     fallback_rates \<lparr> r_normalMultiplier := Fin 1.5 \<rparr> \<and>
   writes (snd (update_action (sample_env (Some no_defaults) vectorA_store))) =
     [metafieldsToSet no_exponent (productGid_of sample_webhook)
        (calculate (Fin 10) (Fin 2) (Fin 1.2) fallback_rates)]"
proof -
  let ?e = "sample_env (Some no_defaults) vectorA_store"
  let ?p = "catalog_reply accept_all vectorA_store
              (GetProductMetafields (productGid_of sample_webhook))"
  have a: "\<not> truthy (ooakMultiplier vectorA_defaults)"
    by (simp add: truthy_def vectorA_defaults_def)
  have n: "\<not> truthy (etsyDiscount no_defaults)" "\<not> truthy (shipping no_defaults)"
    "\<not> truthy (vat no_defaults)" "\<not> truthy (etsyMarkupProfit no_defaults)"
    "\<not> truthy (hourlyRate no_defaults)" "\<not> truthy (normalMultiplier no_defaults)"
    "\<not> truthy (ooakMultiplier no_defaults)"
    by (simp_all add: truthy_def no_defaults_def)
  note f = fallback_policy [where d = no_defaults and e = ?e and w = sample_webhook
      and se = sample_session and productData = ?p and mc = "Fin 10" and hw = "Fin 2"]
  have p: "parse_defaults no_defaults = fallback_rates"
    using f n by (cases "parse_defaults no_defaults") (simp add: fallback_rates_def)
  have m: "rarityMultiplier ''NORMAL'' fallback_rates = Fin 1.2"
    by (simp add: rates_eval fallback_rates_def)
  have "writes (snd (update_action ?e)) =
     [metafieldsToSet no_exponent (productGid_of sample_webhook)
        (calculate (Fin 10) (Fin 2) (Fin 1.2) fallback_rates)]"
    using f p m
    by (simp add: sample_authenticated sample_collaborators catalog_metafields vectorA_inputs)
  moreover have "parse_defaults (no_defaults \<lparr> shipping := Some [], normalMultiplier := Some ''1.5'' \<rparr>) =
     fallback_rates \<lparr> r_normalMultiplier := Fin 1.5 \<rparr>"
    by (simp add: parse_defaults_def parse_or_def no_defaults_def fallback_rates_def parseFloat_eval)
  moreover have "r_ooakMultiplier (parse_defaults vectorA_defaults) = Fin 2"
    using a fallback_policy [where d = vectorA_defaults] by simp
  ultimately show ?thesis
    using a p by blast
qed










lemma attribute_of_append:
  "attribute_of (xs @ ys) k =
     (if attribute_of xs k = None then attribute_of ys k else attribute_of xs k)"
  by (simp add: attribute_of_def map_add_def split: option.splits)

lemma metafieldsSetInput_append:
  "metafieldsSetInput g (xs @ ys) = metafieldsSetInput g xs @ metafieldsSetInput g ys"
  by (simp add: metafieldsSetInput_def)

lemma truthy_not_None: "truthy v \<Longrightarrow> v \<noteq> None"
  by (cases v) (auto simp: truthy_def)

lemma attribute_of_push_if:
  "attribute_of (metafieldsSetInput g (push_if v key ty)) k =
     (if k = key \<and> truthy v then v else None)"
  by (auto simp: attribute_of_def metafieldsSetInput_def push_if_def truthy_def
      split: option.splits)

lemma create_payload_seeded:
  "attribute_of (metafieldsSetInput g (default_metafields d)) k = seeded d k"
  by (simp add: default_metafields_def metafieldsSetInput_append attribute_of_append
      attribute_of_push_if seeded_def config_field_def truthy_not_None)

lemma keys_push_if:
  "map mf_key (metafieldsSetInput g (push_if v key ty)) = (if truthy v then [key] else [])"
  by (auto simp: metafieldsSetInput_def push_if_def truthy_def split: option.splits)

lemma create_payload_distinct:
  "distinct (map mf_key (metafieldsSetInput g (default_metafields d)))"
  by (simp add: default_metafields_def metafieldsSetInput_append keys_push_if)

lemma push_if_owner:
  "m \<in> set (metafieldsSetInput g (push_if v key ty)) \<Longrightarrow>
   mf_ownerId m = g \<and> mf_namespace m = ''custom''"
  by (auto simp: metafieldsSetInput_def push_if_def split: option.splits if_splits)

lemma create_payload_owner:
  "m \<in> set (metafieldsSetInput g (default_metafields d)) \<Longrightarrow>
   mf_ownerId m = g \<and> mf_namespace m = ''custom''"
  unfolding default_metafields_def metafieldsSetInput_append set_append Un_iff
  by (elim disjE) (simp_all add: push_if_owner)

lemma create_try_writes:
  assumes "loadSession e (''offline_'' @ shop w) = Inr (Some se)"
    and "findUnique e (shop w) = Inr (Some d)"
  shows "writes (snd (create_try e w)) =
     (if default_metafields d = [] then []
      else [metafieldsSetInput (productGid_of w) (default_metafields d)])"
  using assms
  by (auto simp: create_try_def Let_def request_of_def split: sum.splits option.splits)

lemma create_try_reads_nothing:
  "Request u t (GetProductMetafields g) \<notin> set (snd (create_try e w))"
  by (auto simp: create_try_def Let_def request_of_def split: sum.splits option.splits)

lemma create_action_reads_nothing:
  "Request u t (GetProductMetafields g) \<notin> set (snd (create_action e))"
proof (cases "authenticate_webhook e")
  case (Inl f)
  then show ?thesis
    by (simp add: create_action_unauthenticated)
next
  case (Inr w)
  then show ?thesis
    using create_try_reads_nothing [of u t g e w]
    by (auto simp: create_action_events split: sum.splits)
qed

text \<open>
  C8.  On a created-item notification with a stored credential: without a row for the
  tenant nothing is written.  With a row, the one write (none when no column is set)
  holds, for every attribute key, exactly the stored string of the corresponding column
  when that column is set, and nothing otherwise; each key occurs once, on the new item
  and in the namespace \<^verbatim>\<open>custom\<close>.  No derived pricing attribute is part of the
  write, and the run never reads the item's attributes, which the calculation would need.
\<close>

theorem create_seeds_defaults:
  assumes "authenticate_webhook e = Inr w"
    and "loadSession e (''offline_'' @ shop w) = Inr (Some se)"
  shows "(findUnique e (shop w) = Inr None \<longrightarrow> writes (snd (create_action e)) = []) \<and>
         (\<forall>d. findUnique e (shop w) = Inr (Some d) \<longrightarrow>
            writes (snd (create_action e)) =
              (if default_metafields d = [] then []
               else [metafieldsSetInput (productGid_of w) (default_metafields d)]) \<and>
            (\<forall>k. attribute_of (metafieldsSetInput (productGid_of w) (default_metafields d)) k =
                  seeded d k) \<and>
            distinct (map mf_key (metafieldsSetInput (productGid_of w) (default_metafields d))) \<and>
            (\<forall>m \<in> set (metafieldsSetInput (productGid_of w) (default_metafields d)).
               mf_ownerId m = productGid_of w \<and> mf_namespace m = ''custom'') \<and>
            (\<forall>k \<in> set [''total_cost'', ''etsy_price'', ''etsy_fees'', ''market_price''].
               attribute_of (metafieldsSetInput (productGid_of w) (default_metafields d)) k = None)) \<and>
         (\<forall>u t g. Request u t (GetProductMetafields g) \<notin> set (snd (create_action e)))"
proof (intro conjI impI allI ballI)
  assume "findUnique e (shop w) = Inr None"
  then show "writes (snd (create_action e)) = []"
    using assms(1) by (simp add: create_action_writes no_defaults_no_write_create)
next
  fix d
  assume "findUnique e (shop w) = Inr (Some d)"
  then show "writes (snd (create_action e)) =
              (if default_metafields d = [] then []
               else [metafieldsSetInput (productGid_of w) (default_metafields d)])"
    using assms by (simp add: create_action_writes create_try_writes del: writes.simps)
next
  fix d k
  show "attribute_of (metafieldsSetInput (productGid_of w) (default_metafields d)) k = seeded d k"
    by (rule create_payload_seeded)
next
  fix d
  show "distinct (map mf_key (metafieldsSetInput (productGid_of w) (default_metafields d)))"
    by (rule create_payload_distinct)
next
  fix d m
  assume "m \<in> set (metafieldsSetInput (productGid_of w) (default_metafields d))"
  then show "mf_ownerId m = productGid_of w" "mf_namespace m = ''custom''"
    by (simp_all add: create_payload_owner)
next
  fix d k
  assume "k \<in> set [''total_cost'', ''etsy_price'', ''etsy_fees'', ''market_price'']"
  then show "attribute_of (metafieldsSetInput (productGid_of w) (default_metafields d)) k = None"
    by (auto simp: create_payload_seeded seeded_def config_field_def)
next
  fix u t g
  show "Request u t (GetProductMetafields g) \<notin> set (snd (create_action e))"
    by (rule create_action_reads_nothing)
qed

theorem create_seeds_defaults_witness:
  "writes (snd (create_action (sample_env None vectorA_store))) = [] \<and>
   writes (snd (create_action (sample_env (Some vectorA_defaults) vectorA_store))) =
     [metafieldsSetInput ''gid://shopify/Product/42'' (default_metafields vectorA_defaults)] \<and>
   map (\<lambda>m. (mf_key m, mf_value m, mf_type m))
     (metafieldsSetInput ''gid://shopify/Product/42'' (default_metafields vectorA_defaults)) =
     [(''etsy_discount'', ''10'', ''number_decimal''),
      (''shipping'', ''5'', ''number_decimal''),
      (''vat'', ''21'', ''number_decimal''),
      (''normal_multiplier'', ''1.2'', ''number_decimal''),
      (''rarity'', ''NORMAL'', ''single_line_text_field''),
      (''etsy_markup_profit'', ''20'', ''number_decimal''),
      (''hourly_rate'', ''15'', ''number_decimal'')] \<and>
   attribute_of (metafieldsSetInput ''gid://shopify/Product/42'' (default_metafields vectorA_defaults))
     ''ooak_multiplier'' = None"
proof -
  have g: "productGid_of sample_webhook = ''gid://shopify/Product/42''"
    by (simp add: productGid_of_def sample_webhook_def)
  have p: "map (\<lambda>m. (mf_key m, mf_value m, mf_type m))
     (metafieldsSetInput ''gid://shopify/Product/42'' (default_metafields vectorA_defaults)) =
     [(''etsy_discount'', ''10'', ''number_decimal''),
      (''shipping'', ''5'', ''number_decimal''),
      (''vat'', ''21'', ''number_decimal''),
      (''normal_multiplier'', ''1.2'', ''number_decimal''),
      (''rarity'', ''NORMAL'', ''single_line_text_field''),
      (''etsy_markup_profit'', ''20'', ''number_decimal''),
      (''hourly_rate'', ''15'', ''number_decimal'')]"
    by (simp add: metafieldsSetInput_def default_metafields_def push_if_def vectorA_defaults_def)
  have ne: "default_metafields vectorA_defaults \<noteq> []"
    by (simp add: default_metafields_def push_if_def vectorA_defaults_def)
  have s: "seeded vectorA_defaults ''ooak_multiplier'' = None"
    by (simp add: seeded_def config_field_def truthy_def vectorA_defaults_def)
  note a = create_seeds_defaults [OF sample_authenticated(1) sample_collaborators(1),
      THEN conjunct1, rule_format, of None vectorA_store]
  note b = create_seeds_defaults [OF sample_authenticated(1) sample_collaborators(1),
      THEN conjunct2, THEN conjunct1, rule_format,
      of "Some vectorA_defaults" vectorA_store vectorA_defaults]
  have "writes (snd (create_action (sample_env None vectorA_store))) = []"
    using a by (simp add: sample_collaborators)
  moreover have "writes (snd (create_action (sample_env (Some vectorA_defaults) vectorA_store))) =
     [metafieldsSetInput ''gid://shopify/Product/42'' (default_metafields vectorA_defaults)]"
    using b [THEN conjunct1] ne by (simp add: sample_collaborators g)
  moreover have "attribute_of
     (metafieldsSetInput ''gid://shopify/Product/42'' (default_metafields vectorA_defaults))
     ''ooak_multiplier'' = None"
    using b [THEN conjunct2, THEN conjunct1, rule_format, of "''ooak_multiplier''"] s
    by (simp add: sample_collaborators g)
  ultimately show ?thesis
    using p by blast
qed

lemma field_of_overwrite:
  "k' \<noteq> k \<Longrightarrow> field_of k' (map (\<lambda>kv. \<lparr> node_namespace = ''custom'', node_key = fst kv, node_value = snd kv \<rparr>) (take n (overwrite k v st))) =
     field_of k' (map (\<lambda>kv. \<lparr> node_namespace = ''custom'', node_key = fst kv, node_value = snd kv \<rparr>) (take n st))"
proof (induction st arbitrary: n)
  case Nil
  then show ?case by (cases n) (simp_all add: field_of_def)
next
  case (Cons kv st)
  show ?case
  proof (cases n)
    case 0
    then show ?thesis by simp
  next
    case (Suc n')
    then show ?thesis
      using Cons.IH [OF Cons.prems, of n'] Cons.prems by (simp add: field_of_def)
  qed
qed

lemma field_of_read_overwrite:
  "k' \<noteq> k \<Longrightarrow> field_of k' (readAttributes (overwrite k v st)) = field_of k' (readAttributes st)"
  unfolding readAttributes_def by (rule field_of_overwrite)

lemma field_of_read_write:
  "k' \<notin> mf_key ` set ms \<Longrightarrow>
   field_of k' (readAttributes (writeAttributes accepted ms st)) = field_of k' (readAttributes st)"
  by (induction ms arbitrary: st) (simp_all add: field_of_read_overwrite)

lemma map_of_overwrite:
  "map_of (overwrite k v st) k' = (if k' = k then Some v else map_of st k')"
  by (induction st) auto

lemma overwrite_same: "map_of st k = Some v \<Longrightarrow> overwrite k v st = st"
  by (induction st) (auto split: if_splits)

lemma map_of_write_other:
  "k \<notin> mf_key ` set ms \<Longrightarrow> map_of (writeAttributes accepted ms st) k = map_of st k"
  by (induction ms arbitrary: st) (simp_all add: map_of_overwrite)

lemma write_again:
  "distinct (map mf_key ms) \<Longrightarrow>
   (\<forall>m \<in> set ms. accepted m \<longrightarrow> map_of st (mf_key m) = Some (mf_value m)) \<Longrightarrow>
   writeAttributes accepted ms st = st"
  by (induction ms arbitrary: st) (auto simp: overwrite_same)

lemma written_values:
  "distinct (map mf_key ms) \<Longrightarrow> m \<in> set ms \<Longrightarrow> accepted m \<Longrightarrow>
   map_of (writeAttributes accepted ms st) (mf_key m) = Some (mf_value m)"
proof (induction ms arbitrary: st)
  case Nil
  then show ?case by simp
next
  case (Cons a ms)
  show ?case
  proof (cases "m = a")
    case True
    then have "mf_key a \<notin> mf_key ` set ms"
      using Cons.prems(1) by simp
    then show ?thesis
      using True Cons.prems(3) by (simp add: map_of_write_other map_of_overwrite)
  next
    case False
    then show ?thesis
      using Cons by simp
  qed
qed

lemma write_idempotent:
  "distinct (map mf_key ms) \<Longrightarrow>
   writeAttributes accepted ms (writeAttributes accepted ms st) = writeAttributes accepted ms st"
  by (rule write_again) (auto simp: written_values)


lemma update_try_writes_shape:
  "writes (snd (update_try e w)) = [] \<or>
   (\<exists>d. writes (snd (update_try e w)) = [metafieldsToSet (numberToString e) (productGid_of w) d])"
  by (auto simp: update_try_def Let_def request_of_def split: sum.splits option.splits)

lemma update_action_writes_shape:
  "writes (snd (update_action e)) = [] \<or>
   (\<exists>g d. writes (snd (update_action e)) = [metafieldsToSet (numberToString e) g d])"
proof (cases "authenticate_webhook e")
  case (Inl f)
  then show ?thesis
    by (simp add: update_action_unauthenticated)
next
  case (Inr w)
  then show ?thesis
    using update_try_writes_shape [of e w] by (auto simp: update_action_writes)
qed

lemma update_action_same_inputs:
  assumes "field_of ''material_costs'' (readAttributes st') = field_of ''material_costs'' (readAttributes st)"
    and "field_of ''hours_worked'' (readAttributes st') = field_of ''hours_worked'' (readAttributes st)"
    and "field_of ''rarity'' (readAttributes st') = field_of ''rarity'' (readAttributes st)"
  shows "update_action (catalog_env w se cfg accepted big st') =
         update_action (catalog_env w se cfg accepted big st)"
  using assms
  by (cases se; cases cfg; cases "field_of ''material_costs'' (readAttributes st)";
      cases "field_of ''hours_worked'' (readAttributes st)";
      cases "field_of ''rarity'' (readAttributes st)")
    (simp_all add: update_action_def update_try_def catalog_env_def graphqlRequest_def
      catalog_reply_def metafields_of_def materialCosts_of_def hoursWorked_of_def
      productRarity_of_def Let_def)

lemma payload_distinct: "distinct (map mf_key (metafieldsToSet big g d))"
  by (simp add: payload_keys)

lemma payload_not_input:
  "''material_costs'' \<notin> mf_key ` set (metafieldsToSet big g d)"
  "''hours_worked'' \<notin> mf_key ` set (metafieldsToSet big g d)"
  "''rarity'' \<notin> mf_key ` set (metafieldsToSet big g d)"
  by (simp_all add: metafieldsToSet_def calculated_field_def)

text \<open>
  C9.  Against the remote catalog, with the credential, the tenant's row and the
  platform's validation unchanged: delivering the same update notification a second time
  makes the handler do exactly what it did the first time (the same requests with the same
  write payload, the same console lines, the same answer), and leaves the item's
  attributes as the first delivery left them.  More generally the run depends on the
  item only through its three input attributes: two items that agree on
  \<^verbatim>\<open>material_costs\<close>, \<^verbatim>\<open>hours_worked\<close> and \<^verbatim>\<open>rarity\<close> give the same run,
  whatever derived attributes they hold.
\<close>

theorem update_replay_converges:
  "update_action (catalog_env w se cfg accepted big (deliver_update w se cfg accepted big st)) =
     update_action (catalog_env w se cfg accepted big st) \<and>
   deliver_update w se cfg accepted big (deliver_update w se cfg accepted big st) =
     deliver_update w se cfg accepted big st \<and>
   (field_of ''material_costs'' (readAttributes st') = field_of ''material_costs'' (readAttributes st) \<and>
    field_of ''hours_worked'' (readAttributes st') = field_of ''hours_worked'' (readAttributes st) \<and>
    field_of ''rarity'' (readAttributes st') = field_of ''rarity'' (readAttributes st) \<longrightarrow>
    update_action (catalog_env w se cfg accepted big st') =
      update_action (catalog_env w se cfg accepted big st))"
proof -
  let ?e = "catalog_env w se cfg accepted big"
  let ?st1 = "deliver_update w se cfg accepted big st"
  have big: "numberToString (?e st) = big"
    by (simp add: catalog_env_def)
  have same: "update_action (?e ?st1) = update_action (?e st)"
  proof -
    consider "writes (snd (update_action (?e st))) = []"
      | g d where "writes (snd (update_action (?e st))) = [metafieldsToSet big g d]"
      using update_action_writes_shape [of "?e st"] big by auto
    then show ?thesis
    proof cases
      case 1
      then have "?st1 = st"
        by (simp add: deliver_update_def apply_writes_def)
      then show ?thesis
        by simp
    next
      case 2
      then have st1: "?st1 = writeAttributes accepted (metafieldsToSet big g d) st"
        by (simp add: deliver_update_def apply_writes_def)
      show ?thesis
        unfolding st1
        by (rule update_action_same_inputs) (simp_all add: field_of_read_write payload_not_input)
    qed
  qed
  have again: "deliver_update w se cfg accepted big ?st1 = ?st1"
  proof -
    consider "writes (snd (update_action (?e st))) = []"
      | g d where "writes (snd (update_action (?e st))) = [metafieldsToSet big g d]"
      using update_action_writes_shape [of "?e st"] big by auto
    then show ?thesis
    proof cases
      case 1
      then have "?st1 = st"
        by (simp add: deliver_update_def apply_writes_def)
      then show ?thesis
        by simp
    next
      case 2
      then have st1: "?st1 = writeAttributes accepted (metafieldsToSet big g d) st"
        by (simp add: deliver_update_def apply_writes_def)
      have "deliver_update w se cfg accepted big ?st1 =
          apply_writes accepted (writes (snd (update_action (?e st)))) ?st1"
        unfolding deliver_update_def [of w se cfg accepted big ?st1] same ..
      also have "\<dots> = writeAttributes accepted (metafieldsToSet big g d) ?st1"
        using 2 by (simp add: apply_writes_def)
      also have "\<dots> = ?st1"
        unfolding st1 by (rule write_idempotent) (rule payload_distinct)
      finally show ?thesis .
    qed
  qed
  show ?thesis
    using same again update_action_same_inputs [of st' st w se cfg accepted big] by blast
qed

theorem update_replay_converges_witness:
  "deliver_update sample_webhook (Some sample_session) (Some vectorA_defaults) accept_all
     no_exponent vectorA_store = vectorA_written \<and>
   deliver_update sample_webhook (Some sample_session) (Some vectorA_defaults) accept_all
     no_exponent vectorA_written = vectorA_written \<and>
   update_action (sample_env (Some vectorA_defaults) vectorA_written) =
     update_action (sample_env (Some vectorA_defaults) vectorA_store) \<and>
   update_action (sample_env (Some vectorA_defaults) stale_store) =
     update_action (sample_env (Some vectorA_defaults) vectorA_store)"
proof -
  have first: "deliver_update sample_webhook (Some sample_session) (Some vectorA_defaults)
      accept_all no_exponent vectorA_store = vectorA_written"
    by (simp add: deliver_update_def apply_writes_def sample_eval update_eval
        vectorA_defaults_def vectorA_store_def vectorA_written_def parseFloat_eval toFixed_eval)
  have stale:
    "field_of ''material_costs'' (readAttributes stale_store) =
       field_of ''material_costs'' (readAttributes vectorA_store)"
    "field_of ''hours_worked'' (readAttributes stale_store) =
       field_of ''hours_worked'' (readAttributes vectorA_store)"
    "field_of ''rarity'' (readAttributes stale_store) =
       field_of ''rarity'' (readAttributes vectorA_store)"
    by (simp_all add: field_of_def readAttributes_def stale_store_def vectorA_store_def)
  note r = update_replay_converges [of sample_webhook "Some sample_session"
      "Some vectorA_defaults" accept_all no_exponent vectorA_store stale_store]
  show ?thesis
    using r stale first by (simp add: sample_env_def)
qed


lemma divisor_Fin: "js_sub (Fin 1) (js_div (Fin d) (Fin 100)) = Fin (1 - d / 100)"
  by (simp add: js_sub_def)









end
